theory Spec2Isabelle
  imports Complex_Main
begin

section \<open>Resolvers of kong: the data model\<close>

text \<open>
  The file \<^verbatim>\<open>resolver.go\<close> declares the \<^verbatim>\<open>Resolver\<close> interface, the adapter
  \<^verbatim>\<open>ResolverFunc\<close> and three constructors: \<^verbatim>\<open>DefaultsResolver\<close>,
  \<^verbatim>\<open>EnvarResolver\<close> and \<^verbatim>\<open>JSON\<close>.

  Go strings are byte sequences, here \<^typ>\<open>string\<close>. A Go \<^verbatim>\<open>error\<close> result is an
  \<open>error option\<close>, \<^term>\<open>None\<close> being the nil error.
\<close>

datatype error =
    SyntaxError string
  | UnmarshalTypeError string
  | ReadError string

text \<open>
  The values of type \<^verbatim>\<open>interface{}\<close> that the resolvers return: the nil interface,
  a string, and what \<^verbatim>\<open>encoding/json\<close> stores in an \<^verbatim>\<open>interface{}\<close>
  (bool, float64, string, \<^verbatim>\<open>[]interface{}\<close>, \<^verbatim>\<open>map[string]interface{}\<close>, and nil
  for the JSON null). A float64 is carried as the real number it denotes (the sign of a
  zero is not carried); no arithmetic is done on it. A nested Go map is an association
  list with distinct keys.
\<close>

datatype iface =
    INil
  | IBool bool
  | IFloat64 real
  | IString string
  | ISlice "iface list"
  | IMap "(string \<times> iface) list"

text \<open>
  Modelled from the spec: the declarations of \<^verbatim>\<open>Flag\<close> and \<^verbatim>\<open>Tag\<close>, which are in
  another file of the package. The specification (section 3) gives a flag the attributes
  \<^verbatim>\<open>Name\<close>, \<^verbatim>\<open>Tag.Default\<close> and \<^verbatim>\<open>Tag.Env\<close>, all strings; these are the fields
  that \<^verbatim>\<open>resolver.go\<close> reads. Every other field is in the extension part of the
  records. A \<^verbatim>\<open>*Flag\<close> argument is the record it points to, and is not nil.
  \<^verbatim>\<open>*Context\<close>, \<^verbatim>\<open>*Path\<close> and \<^verbatim>\<open>*Application\<close> are never dereferenced here
  and are type parameters \<open>'c\<close>, \<open>'p\<close> and \<open>'a\<close>.
\<close>

record Tag =
  Default :: string
  Env :: string

record 't Flag =
  Name :: string
  Tag :: "'t Tag_scheme"

text \<open>
  The state of the process: the environment variables, which \<^verbatim>\<open>os.Getenv\<close> reads,
  and the rest of it in the extension part of the record. A call takes the state and
  returns it with its results.
\<close>

record world =
  environ :: "string \<rightharpoonup> string"

type_synonym ('c, 'p, 'f, 'w) ResolverFunc =
  "'c \<Rightarrow> 'p \<Rightarrow> 'f \<Rightarrow> 'w world_scheme \<Rightarrow> (iface \<times> error option) \<times> 'w world_scheme"

text \<open>The interface \<^verbatim>\<open>Resolver\<close>: a value with the two methods.\<close>

record ('a, 'c, 'p, 'f, 'w) Resolver =
  Validate :: "'a \<Rightarrow> 'w world_scheme \<Rightarrow> error option \<times> 'w world_scheme"
  Resolve :: "('c, 'p, 'f, 'w) ResolverFunc"

section \<open>The adapter and the resolvers of defaults and environment\<close>

text \<open>
  \<^verbatim>\<open>ResolverFunc(r)\<close> as a \<^verbatim>\<open>Resolver\<close>: \<^verbatim>\<open>Resolve\<close> returns \<^verbatim>\<open>r(context, parent, flag)\<close>,
  \<^verbatim>\<open>Validate\<close> returns nil. The function \<open>r\<close> is not nil.
\<close>

definition ResolverFunc :: "('c, 'p, 'f, 'w) ResolverFunc \<Rightarrow> ('a, 'c, 'p, 'f, 'w) Resolver" where
  "ResolverFunc r =
     \<lparr>Validate = (\<lambda>app w. (None, w)),
      Resolve = (\<lambda>context parent flag. r context parent flag)\<rparr>"

definition DefaultsResolver :: "('a, 'c, 'p, ('t, 'm) Flag_scheme, 'w) Resolver" where
  "DefaultsResolver =
     ResolverFunc (\<lambda>context parent flag w.
       if Default (Tag flag) = [] then ((INil, None), w)
       else ((IString (Default (Tag flag)), None), w))"

text \<open>
  \<^verbatim>\<open>os.Getenv\<close>: the value of the variable, the empty string when it is not present.
\<close>

definition Getenv :: "string \<Rightarrow> 'w world_scheme \<Rightarrow> string" where
  "Getenv key w = (case environ w key of None \<Rightarrow> [] | Some v \<Rightarrow> v)"

definition EnvarResolver :: "('a, 'c, 'p, ('t, 'm) Flag_scheme, 'w) Resolver" where
  "EnvarResolver =
     ResolverFunc (\<lambda>context parent flag w.
       if Env (Tag flag) = [] then ((INil, None), w)
       else
         let envar = Getenv (Env (Tag flag)) w
         in if envar \<noteq> [] then ((IString envar, None), w)
            else ((INil, None), w))"

section \<open>The JSON resolver\<close>

text \<open>
  \<^verbatim>\<open>encoding/json\<close> belongs to the Go standard library. Its scanner is not modelled:
  the \<^verbatim>\<open>io.Reader\<close> given to \<^verbatim>\<open>JSON\<close> is represented by what the decoder gets on
  scanning it, either the first complete JSON value of the stream (\<open>Holds\<close>) or the error
  that stops the scan (\<open>Fails\<close>: a syntax error, a value that does not convert, a read
  error, the end of the input). The text \<^verbatim>\<open>not json\<close> is a \<open>Fails\<close> with a syntax
  error; the text \<^verbatim>\<open>{"flag_a": null}\<close> is \<open>Holds (JObject [(''flag_a'', JNull)])\<close>.
  The members of an object are in the order of the text, duplicates included. A number
  is the real number that its literal denotes: \<^verbatim>\<open>1e400\<close> is \<open>JNumber (10 ^ 400)\<close>.
\<close>

datatype json =
    JNull
  | JBool bool
  | JNumber real
  | JString string
  | JArray "json list"
  | JObject "(string \<times> json) list"

datatype Reader = Fails error | Holds json

text \<open>
  \<^verbatim>\<open>strconv.ParseFloat(s, 64)\<close>, on the number that the literal \<open>s\<close> denotes: the
  nearest float64, a tie going to the even mantissa, and a range error (\<open>None\<close>) for a
  number that is half a unit in the last place or more beyond the largest float64,
  \<open>2 ^ 1024 - 2 ^ 971\<close>. A float64 has a mantissa of 53 bits and an exponent from -1074
  on; a number too small for it rounds to a subnormal number or to zero, without an error.
\<close>

fun bits :: "nat \<Rightarrow> nat" where
  "bits n = (if n = 0 then 0 else Suc (bits (n div 2)))"

declare bits.simps [simp del]

text \<open>The exponent of a positive number \<open>a\<close>: the \<open>e\<close> with \<open>2 ^ e \<le> a < 2 ^ (e + 1)\<close>.\<close>

definition exponent :: "real \<Rightarrow> int" where
  "exponent a =
     (if 1 \<le> a then int (bits (nat \<lfloor>a\<rfloor>)) - 1
      else - int (bits (nat (\<lceil>1 / a\<rceil> - 1))))"

definition roundeven :: "real \<Rightarrow> int" where
  "roundeven y =
     (let n = \<lfloor>y\<rfloor>; d = y - of_int n
      in if d < 1 / 2 then n
         else if 1 / 2 < d then n + 1
         else if even n then n else n + 1)"

definition round64 :: "real \<Rightarrow> real" where
  "round64 x =
     (if x = 0 then 0
      else
        let a = \<bar>x\<bar>;
            q = max (exponent a - 52) (- 1074)
        in sgn x * (of_int (roundeven (a / 2 powi q)) * 2 powi q))"

definition ParseFloat :: "real \<Rightarrow> real option" where
  "ParseFloat x = (if 2 ^ 1024 - 2 ^ 970 \<le> \<bar>x\<bar> then None else Some (round64 x))"

text \<open>
  Storing a JSON value in an \<^verbatim>\<open>interface{}\<close>, after the documentation of
  \<^verbatim>\<open>json.Unmarshal\<close>: bool for booleans, float64 for numbers, string for strings,
  \<^verbatim>\<open>[]interface{}\<close> for arrays, \<^verbatim>\<open>map[string]interface{}\<close> for objects, nil for null.
  A member of an object that repeats a key replaces the earlier one. A number that
  \<^verbatim>\<open>ParseFloat\<close> refuses is stored as nil, the decoder goes on, and its first such
  error is kept (\<open>savedError\<close>) and returned by \<^verbatim>\<open>Decode\<close> at the end.
\<close>

definition setMapIndex :: "(string \<times> iface) list \<Rightarrow> string \<times> iface \<Rightarrow> (string \<times> iface) list" where
  "setMapIndex m kv =
     (if fst kv \<in> fst ` set m
      then map (\<lambda>e. if fst e = fst kv then kv else e) m
      else m @ [kv])"

primrec valueInterface :: "json \<Rightarrow> iface" where
  "valueInterface JNull = INil"
| "valueInterface (JBool b) = IBool b"
| "valueInterface (JNumber x) = (case ParseFloat x of None \<Rightarrow> INil | Some y \<Rightarrow> IFloat64 y)"
| "valueInterface (JString s) = IString s"
| "valueInterface (JArray xs) = ISlice (map valueInterface xs)"
| "valueInterface (JObject kvs) =
     IMap (foldl setMapIndex [] (map (map_prod id valueInterface) kvs))"

fun firstError :: "error option list \<Rightarrow> error option" where
  "firstError [] = None"
| "firstError (Some e # es) = Some e"
| "firstError (None # es) = firstError es"

primrec savedError :: "json \<Rightarrow> error option" where
  "savedError JNull = None"
| "savedError (JBool b) = None"
| "savedError (JNumber x) =
     (case ParseFloat x of None \<Rightarrow> Some (UnmarshalTypeError ''number'') | Some y \<Rightarrow> None)"
| "savedError (JString s) = None"
| "savedError (JArray xs) = firstError (map savedError xs)"
| "savedError (JObject kvs) = firstError (map snd (map (map_prod id savedError) kvs))"

text \<open>
  \<^verbatim>\<open>Decode(&values)\<close> on a \<^verbatim>\<open>map[string]interface{}\<close>: an object stores its members in
  the map, one after the other, and the error is the saved error of its numbers, if any;
  null sets the map to nil, without an error (a nil map reads as the empty map); any
  other value is an \<^verbatim>\<open>UnmarshalTypeError\<close> naming the kind of the value; an error of
  the scan is returned as it is. The result is the map after the call and the error.
\<close>

fun Decode :: "Reader \<Rightarrow> (string \<rightharpoonup> iface) \<Rightarrow> (string \<rightharpoonup> iface) \<times> error option" where
  "Decode (Fails e) values = (values, Some e)"
| "Decode (Holds JNull) values = (Map.empty, None)"
| "Decode (Holds (JObject kvs)) values =
     (foldl (\<lambda>m (k, v). m(k \<mapsto> valueInterface v)) values kvs, savedError (JObject kvs))"
| "Decode (Holds (JBool b)) values = (values, Some (UnmarshalTypeError ''bool''))"
| "Decode (Holds (JNumber x)) values = (values, Some (UnmarshalTypeError ''number''))"
| "Decode (Holds (JString s)) values = (values, Some (UnmarshalTypeError ''string''))"
| "Decode (Holds (JArray xs)) values = (values, Some (UnmarshalTypeError ''array''))"

text \<open>
  \<^verbatim>\<open>strings.Replace(s, old, new, n)\<close> for a pattern \<open>old\<close> of one byte, as in the
  one call of the file: the first \<open>n\<close> occurrences of the byte are replaced by
  \<open>new\<close>, all of them when \<open>n\<close> is negative.
\<close>

fun Replace :: "string \<Rightarrow> char \<Rightarrow> string \<Rightarrow> int \<Rightarrow> string" where
  "Replace [] old new n = []"
| "Replace (c # s) old new n =
     (if n \<noteq> 0 \<and> c = old then new @ Replace s old new (n - 1)
      else c # Replace s old new n)"

text \<open>The closure \<^verbatim>\<open>f\<close> of \<^verbatim>\<open>JSON\<close>, with the map \<^verbatim>\<open>values\<close> that it captures.\<close>

definition JSON_f :: "(string \<rightharpoonup> iface) \<Rightarrow> ('c, 'p, ('t, 'm) Flag_scheme, 'w) ResolverFunc" where
  "JSON_f values =
     (\<lambda>context parent flag w.
        let name = Replace (Name flag) (CHR ''-'') ''_'' (- 1)
        in case values name of
             None \<Rightarrow> ((INil, None), w)
           | Some raw \<Rightarrow> ((raw, None), w))"

definition JSON :: "Reader \<Rightarrow> ('a, 'c, 'p, ('t, 'm) Flag_scheme, 'w) Resolver option \<times> error option" where
  "JSON r =
     (let values = Map.empty;
          (values, err) = Decode r values
      in if err \<noteq> None then (None, err)
         else (Some (ResolverFunc (JSON_f values)), None))"


text \<open>The instance of the types at which most examples below are evaluated.\<close>

type_synonym resolver0 = "(unit, unit, unit, (unit, unit) Flag_scheme, unit) Resolver"

text \<open>
  A second instance, in which contexts are numbers, paths are strings, and the flag, its
  tag and the state of the process have one more field each.
\<close>

type_synonym resolver1 = "(unit, nat, string, (bool, string) Flag_scheme, nat) Resolver"

section \<open>Facts about the library functions\<close>

lemma Replace_all:
  "n < 0 \<Longrightarrow> Replace s old new n = concat (map (\<lambda>c. if c = old then new else [c]) s)"
  by (induction s arbitrary: n) auto

lemma Replace_hyphen:
  "Replace s (CHR ''-'') ''_'' (- 1) = map (\<lambda>c. if c = CHR ''-'' then CHR ''_'' else c) s"
  by (induction s) (auto simp: Replace_all)

lemma Replace_no_hyphen: "CHR ''-'' \<notin> set (Replace s (CHR ''-'') ''_'' (- 1))"
  by (auto simp: Replace_hyphen)

text \<open>After an object is stored, a key holds the value of its last member with that key.\<close>

lemma foldl_store:
  "foldl (\<lambda>m (k, v). m(k \<mapsto> g v)) m0 kvs k =
     (case map_of (rev kvs) k of None \<Rightarrow> m0 k | Some v \<Rightarrow> Some (g v))"
  by (induction kvs arbitrary: m0) (auto simp: map_add_def split: option.splits)

lemma map_of_filter_key:
  "map_of (filter (\<lambda>kv. Q (fst kv)) xs) k = (if Q k then map_of xs k else None)"
  by (induction xs) auto

lemma JSON_Some:
  "JSON r = (Some res, e) \<Longrightarrow>
     e = None \<and> snd (Decode r Map.empty) = None \<and>
     res = ResolverFunc (JSON_f (fst (Decode r Map.empty)))"
  by (auto simp: JSON_def Let_def split: prod.splits if_splits)

lemma JSON_object_Some:
  assumes "JSON (Holds (JObject kvs)) = (Some res, e)"
  shows "res = ResolverFunc (JSON_f (\<lambda>k. map_option valueInterface (map_of (rev kvs) k)))"
proof -
  have "fst (Decode (Holds (JObject kvs)) Map.empty) =
      (\<lambda>k. map_option valueInterface (map_of (rev kvs) k))"
    by (auto simp: foldl_store fun_eq_iff split: option.splits)
  with JSON_Some [OF assms] show ?thesis
    by simp
qed

lemma JSON_the:
  "savedError (JObject kvs) = None \<Longrightarrow>
   JSON (Holds (JObject kvs)) =
     (Some (the (fst (JSON (Holds (JObject kvs))))), snd (JSON (Holds (JObject kvs))))"
  by (simp add: JSON_def)


text \<open>A natural number below \<open>2 ^ 53\<close> is a float64: the conversion returns it.\<close>

lemma bits_bounds: "0 < n \<Longrightarrow> 2 ^ (bits n - 1) \<le> n \<and> n < 2 ^ bits n"
proof (induction n rule: bits.induct)
  case (1 n)
  show ?case
  proof (cases "n div 2 = 0")
    case True
    with "1.prems" have "n = 1" by (simp add: div_eq_0_iff)
    then show ?thesis by (simp add: bits.simps)
  next
    case False
    then have pos: "0 < n div 2" by simp
    from "1.IH" [OF _ pos] "1.prems"
    have ih: "2 ^ (bits (n div 2) - 1) \<le> n div 2" "n div 2 < 2 ^ bits (n div 2)"
      by simp_all
    have b: "bits n = Suc (bits (n div 2))"
      using "1.prems" by (subst bits.simps) simp
    have bpos: "0 < bits (n div 2)"
      using pos by (subst bits.simps) simp
    then obtain k where k: "bits (n div 2) = Suc k"
      by (cases "bits (n div 2)") simp_all
    from ih k have "2 * 2 ^ k \<le> n" "n < 2 * 2 ^ Suc k"
      by simp_all
    then show ?thesis
      by (simp add: b k)
  qed
qed

lemma roundeven_of_int: "roundeven (of_int k) = k"
  by (simp add: roundeven_def)

lemma round64_nat:
  assumes "0 < n" and "n < 2 ^ 53"
  shows "round64 (real n) = real n"
proof -
  from bits_bounds [OF assms(1)]
  have lo: "2 ^ (bits n - 1) \<le> n" and hi: "n < 2 ^ bits n"
    by simp_all
  have "bits n \<le> 53"
  proof (rule ccontr)
    assume "\<not> bits n \<le> 53"
    then have "53 \<le> bits n - 1" by simp
    then have "(2::nat) ^ 53 \<le> 2 ^ (bits n - 1)"
      by (rule power_increasing) simp
    with lo assms(2) show False by simp
  qed
  moreover have "0 < bits n"
    using assms(1) by (subst bits.simps) simp
  ultimately obtain d where d: "bits n + d = 53" and bn: "0 < bits n"
    by (metis le_Suc_ex)
  have e: "exponent (real n) = int (bits n) - 1"
    using assms(1) by (simp add: exponent_def)
  have q: "max (exponent (real n) - 52) (- 1074) = - int d"
    using d e by simp
  have scaled: "real n / 2 powi (- int d) = of_int (int n * 2 ^ d)"
    by (simp add: power_int_minus field_simps)
  have pos: "\<bar>real n\<bar> = real n" "sgn (real n) = 1" "real n \<noteq> 0"
    using assms(1) by simp_all
  have "round64 (real n) =
      sgn (real n) * (of_int (roundeven (\<bar>real n\<bar> /
        2 powi max (exponent \<bar>real n\<bar> - 52) (- 1074))) *
        2 powi max (exponent \<bar>real n\<bar> - 52) (- 1074))"
    using pos(3) by (simp only: round64_def Let_def if_False)
  also have "\<dots> = of_int (int n * 2 ^ d) * 2 powi (- int d)"
    by (simp only: pos q scaled roundeven_of_int mult_1)
  also have "\<dots> = real n"
    by (simp add: power_int_minus field_simps)
  finally show ?thesis .
qed

lemma ParseFloat_range [simp]: "2 ^ 1024 - 2 ^ 970 \<le> \<bar>x\<bar> \<Longrightarrow> ParseFloat x = None"
  by (simp add: ParseFloat_def)

lemma ParseFloat_0 [simp]: "ParseFloat 0 = Some 0"
  by (simp add: ParseFloat_def round64_def)

lemma ParseFloat_1 [simp]: "ParseFloat 1 = Some 1"
proof -
  have "round64 (real 1) = real 1"
    by (rule round64_nat) simp_all
  then show ?thesis
    by (simp add: ParseFloat_def)
qed

lemma ParseFloat_numeral [simp]:
  assumes "(numeral k :: nat) < 2 ^ 53"
  shows "ParseFloat (numeral k) = Some (numeral k)"
proof -
  have "round64 (real (numeral k)) = real (numeral k)"
    by (rule round64_nat [OF _ assms]) simp
  then have exact: "round64 (numeral k) = numeral k"
    by simp
  have "real (numeral k) < real (2 ^ 53)"
    using assms by (simp only: of_nat_less_iff)
  then have small: "(numeral k :: real) < 2 ^ 53"
    by simp
  have "(2::real) ^ 53 < 2 ^ 1024 - 2 ^ 970"
    by simp
  with small have "\<bar>numeral k :: real\<bar> < 2 ^ 1024 - 2 ^ 970"
    by (simp only: abs_numeral)
  then have "\<not> (2 ^ 1024 - 2 ^ 970 \<le> \<bar>numeral k :: real\<bar>)"
    by (simp only: not_le)
  then show ?thesis
    by (simp only: ParseFloat_def exact if_False)
qed

section \<open>The defaults resolver\<close>

text \<open>
  Claim C1. For every flag, context, parent path and state: when \<^verbatim>\<open>flag.Tag.Default\<close> is
  the empty string, \<^verbatim>\<open>Resolve\<close> of the defaults resolver returns nil and no error; when
  it is a non-empty string, \<^verbatim>\<open>Resolve\<close> returns exactly that string and no error. The
  context and the path do not appear in the result.
\<close>

theorem DefaultsResolver_resolve:
  "(Default (Tag flag) = [] \<longrightarrow>
      Resolve DefaultsResolver context parent flag w = ((INil, None), w)) \<and>
   (Default (Tag flag) \<noteq> [] \<longrightarrow>
      Resolve DefaultsResolver context parent flag w =
        ((IString (Default (Tag flag)), None), w))"
  by (simp add: DefaultsResolver_def ResolverFunc_def)

theorem DefaultsResolver_resolve_witness:
  "Resolve (DefaultsResolver :: resolver0) () ()
     \<lparr>Name = ''port'', Tag = \<lparr>Default = ''8080'', Env = ''PORT''\<rparr>\<rparr>
     \<lparr>environ = [''PORT'' \<mapsto> ''9090'']\<rparr>
   = ((IString ''8080'', None), \<lparr>environ = [''PORT'' \<mapsto> ''9090'']\<rparr>) \<and>
   Resolve (DefaultsResolver :: resolver0) () ()
     \<lparr>Name = ''port'', Tag = \<lparr>Default = [], Env = ''PORT''\<rparr>\<rparr>
     \<lparr>environ = [''PORT'' \<mapsto> ''9090'']\<rparr>
   = ((INil, None), \<lparr>environ = [''PORT'' \<mapsto> ''9090'']\<rparr>)"
  using DefaultsResolver_resolve
          [of "\<lparr>Name = ''port'', Tag = \<lparr>Default = ''8080'', Env = ''PORT''\<rparr>\<rparr>"
              "()" "()" "\<lparr>environ = [''PORT'' \<mapsto> ''9090'']\<rparr>"]
        DefaultsResolver_resolve
          [of "\<lparr>Name = ''port'', Tag = \<lparr>Default = [], Env = ''PORT''\<rparr>\<rparr>"
              "()" "()" "\<lparr>environ = [''PORT'' \<mapsto> ''9090'']\<rparr>"]
  by simp

section \<open>The environment resolver\<close>

text \<open>
  Claim C2. When \<^verbatim>\<open>flag.Tag.Env\<close> is the empty string, \<^verbatim>\<open>Resolve\<close> of the
  environment resolver returns nil. When it names a variable that is set to a non-empty
  string, \<^verbatim>\<open>Resolve\<close> returns that string. When the variable is not set, or is set to
  the empty string, \<^verbatim>\<open>Resolve\<close> returns nil: a variable that is set and empty is
  treated as one that is absent. No call returns an error or changes the state.
\<close>

theorem EnvarResolver_resolve:
  "(Env (Tag flag) = [] \<longrightarrow>
      Resolve EnvarResolver context parent flag w = ((INil, None), w)) \<and>
   (Env (Tag flag) \<noteq> [] \<longrightarrow> environ w (Env (Tag flag)) = Some v \<longrightarrow> v \<noteq> [] \<longrightarrow>
      Resolve EnvarResolver context parent flag w = ((IString v, None), w)) \<and>
   (Env (Tag flag) \<noteq> [] \<longrightarrow>
      environ w (Env (Tag flag)) = None \<or> environ w (Env (Tag flag)) = Some [] \<longrightarrow>
      Resolve EnvarResolver context parent flag w = ((INil, None), w))"
  by (auto simp: EnvarResolver_def ResolverFunc_def Getenv_def)

theorem EnvarResolver_resolve_witness:
  "Resolve (EnvarResolver :: resolver0) () ()
     \<lparr>Name = ''foo'', Tag = \<lparr>Default = ''dflt'', Env = []\<rparr>\<rparr>
     \<lparr>environ = [''FOO'' \<mapsto> ''bar'']\<rparr>
   = ((INil, None), \<lparr>environ = [''FOO'' \<mapsto> ''bar'']\<rparr>) \<and>
   Resolve (EnvarResolver :: resolver0) () ()
     \<lparr>Name = ''foo'', Tag = \<lparr>Default = ''dflt'', Env = ''FOO''\<rparr>\<rparr>
     \<lparr>environ = [''FOO'' \<mapsto> ''bar'']\<rparr>
   = ((IString ''bar'', None), \<lparr>environ = [''FOO'' \<mapsto> ''bar'']\<rparr>) \<and>
   Resolve (EnvarResolver :: resolver0) () ()
     \<lparr>Name = ''foo'', Tag = \<lparr>Default = ''dflt'', Env = ''FOO''\<rparr>\<rparr>
     \<lparr>environ = [''FOO'' \<mapsto> []]\<rparr>
   = ((INil, None), \<lparr>environ = [''FOO'' \<mapsto> []]\<rparr>) \<and>
   Resolve (EnvarResolver :: resolver0) () ()
     \<lparr>Name = ''foo'', Tag = \<lparr>Default = ''dflt'', Env = ''FOO''\<rparr>\<rparr>
     \<lparr>environ = Map.empty\<rparr>
   = ((INil, None), \<lparr>environ = Map.empty\<rparr>)"
  using EnvarResolver_resolve
          [of "\<lparr>Name = ''foo'', Tag = \<lparr>Default = ''dflt'', Env = []\<rparr>\<rparr>"
              "()" "()" "\<lparr>environ = [''FOO'' \<mapsto> ''bar'']\<rparr>"]
        EnvarResolver_resolve
          [of "\<lparr>Name = ''foo'', Tag = \<lparr>Default = ''dflt'', Env = ''FOO''\<rparr>\<rparr>"
              "()" "()" "\<lparr>environ = [''FOO'' \<mapsto> ''bar'']\<rparr>" "''bar''"]
        EnvarResolver_resolve
          [of "\<lparr>Name = ''foo'', Tag = \<lparr>Default = ''dflt'', Env = ''FOO''\<rparr>\<rparr>"
              "()" "()" "\<lparr>environ = [''FOO'' \<mapsto> []]\<rparr>"]
        EnvarResolver_resolve
          [of "\<lparr>Name = ''foo'', Tag = \<lparr>Default = ''dflt'', Env = ''FOO''\<rparr>\<rparr>"
              "()" "()" "\<lparr>environ = Map.empty\<rparr>"]
  by simp

section \<open>The JSON resolver: lookup\<close>

text \<open>
  Claim C3. A resolver built by \<^verbatim>\<open>JSON\<close> from a JSON object replaces every hyphen of
  the flag's name by an underscore and looks that key up in the decoded document. A key
  that is absent gives nil; a key that is present gives its decoded value as it is (the
  value of the last member with that key), with no error. The document
  \<^verbatim>\<open>{"max_retries": 3, "name": "x"}\<close> gives 3 for the flag \<^verbatim>\<open>max-retries\<close> and nil
  for the flag \<^verbatim>\<open>missing-key\<close>.
\<close>

theorem JSON_resolve_lookup:
  assumes "JSON (Holds (JObject kvs)) = (Some res, e)"
  shows "Resolve res context parent flag w =
    (case map_of (rev kvs) (map (\<lambda>c. if c = CHR ''-'' then CHR ''_'' else c) (Name flag)) of
       None \<Rightarrow> ((INil, None), w)
     | Some j \<Rightarrow> ((valueInterface j, None), w))"
proof -
  have "res = ResolverFunc (JSON_f (\<lambda>k. map_option valueInterface (map_of (rev kvs) k)))"
    using assms by (rule JSON_object_Some)
  then show ?thesis
    by (simp add: ResolverFunc_def JSON_f_def Replace_hyphen split: option.splits)
qed

theorem JSON_resolve_lookup_witness:
  "(case JSON (Holds (JObject [(''max_retries'', JNumber 3), (''name'', JString ''x'')])) of
      (res :: resolver0 option, err) \<Rightarrow>
        res \<noteq> None \<and> err = None \<and>
        Resolve (the res) () () \<lparr>Name = ''max-retries'', Tag = \<lparr>Default = [], Env = []\<rparr>\<rparr>
            \<lparr>environ = Map.empty\<rparr>
          = ((IFloat64 3, None), \<lparr>environ = Map.empty\<rparr>) \<and>
        Resolve (the res) () () \<lparr>Name = ''missing-key'', Tag = \<lparr>Default = [], Env = []\<rparr>\<rparr>
            \<lparr>environ = Map.empty\<rparr>
          = ((INil, None), \<lparr>environ = Map.empty\<rparr>))"
proof -
  define J :: "resolver0 option \<times> error option"
    where "J = JSON (Holds (JObject [(''max_retries'', JNumber 3), (''name'', JString ''x'')]))"
  have built: "JSON (Holds (JObject [(''max_retries'', JNumber 3), (''name'', JString ''x'')]))
      = (Some (the (fst J)), snd J)"
    unfolding J_def by (rule JSON_the) simp
  have made: "fst J \<noteq> None \<and> snd J = None"
    unfolding J_def by (simp add: JSON_def)
  show ?thesis
    using made
      JSON_resolve_lookup [OF built, of "()" "()"
        "\<lparr>Name = ''max-retries'', Tag = \<lparr>Default = [], Env = []\<rparr>\<rparr>" "\<lparr>environ = Map.empty\<rparr>"]
      JSON_resolve_lookup [OF built, of "()" "()"
        "\<lparr>Name = ''missing-key'', Tag = \<lparr>Default = [], Env = []\<rparr>\<rparr>" "\<lparr>environ = Map.empty\<rparr>"]
    by (simp add: case_prod_beta J_def [symmetric])
qed

section \<open>The JSON resolver: a null value\<close>

text \<open>
  Counterexample to C4 as it is stated (the result for a key that holds null can be told
  from the result for an absent key). It cannot: the document \<^verbatim>\<open>{"flag_a": null}\<close> stores nil under the
  key \<^verbatim>\<open>flag_a\<close>, and the closure returns the stored value. The flags \<^verbatim>\<open>flag-a\<close>
  (the key is present, with null) and \<^verbatim>\<open>flag-b\<close> (the key is absent) get the same
  result of \<^verbatim>\<open>Resolve\<close>, the nil value and the nil error.
\<close>

theorem JSON_null_counterexample:
  "(case JSON (Holds (JObject [(''flag_a'', JNull)])) of
      (res :: resolver0 option, err) \<Rightarrow>
        res \<noteq> None \<and> err = None \<and>
        Resolve (the res) () () \<lparr>Name = ''flag-a'', Tag = \<lparr>Default = [], Env = []\<rparr>\<rparr>
            \<lparr>environ = Map.empty\<rparr>
          = Resolve (the res) () () \<lparr>Name = ''flag-b'', Tag = \<lparr>Default = [], Env = []\<rparr>\<rparr>
            \<lparr>environ = Map.empty\<rparr> \<and>
        fst (Resolve (the res) () () \<lparr>Name = ''flag-a'', Tag = \<lparr>Default = [], Env = []\<rparr>\<rparr>
            \<lparr>environ = Map.empty\<rparr>) = (INil, None))"
  by (simp add: JSON_def ResolverFunc_def JSON_f_def)

text \<open>
  Claim C4, as amended. For a resolver built by \<^verbatim>\<open>JSON\<close> from an object, a flag whose
  key holds the JSON null and a flag whose key is absent both resolve to nil with no
  error: the two results are equal.
\<close>

theorem JSON_null_as_absent:
  assumes "JSON (Holds (JObject kvs)) = (Some res, e)"
    and "map_of (rev kvs) (Replace (Name flag_a) (CHR ''-'') ''_'' (- 1)) = Some JNull"
    and "map_of (rev kvs) (Replace (Name flag_b) (CHR ''-'') ''_'' (- 1)) = None"
  shows "Resolve res context parent flag_a w = ((INil, None), w) \<and>
         Resolve res context parent flag_b w = ((INil, None), w)"
proof -
  have "res = ResolverFunc (JSON_f (\<lambda>k. map_option valueInterface (map_of (rev kvs) k)))"
    using assms(1) by (rule JSON_object_Some)
  then show ?thesis
    using assms(2,3) by (simp add: ResolverFunc_def JSON_f_def)
qed

theorem JSON_null_as_absent_witness:
  "(case JSON (Holds (JObject [(''name'', JString ''x''), (''flag_a'', JNull)])) of
      (res :: resolver0 option, err) \<Rightarrow>
        res \<noteq> None \<and> err = None \<and>
        Resolve (the res) () () \<lparr>Name = ''flag-a'', Tag = \<lparr>Default = [], Env = []\<rparr>\<rparr>
            \<lparr>environ = Map.empty\<rparr>
          = ((INil, None), \<lparr>environ = Map.empty\<rparr>) \<and>
        Resolve (the res) () () \<lparr>Name = ''flag-b'', Tag = \<lparr>Default = [], Env = []\<rparr>\<rparr>
            \<lparr>environ = Map.empty\<rparr>
          = ((INil, None), \<lparr>environ = Map.empty\<rparr>))"
proof -
  let ?kvs = "[(''name'', JString ''x''), (''flag_a'', JNull)]"
  define J :: "resolver0 option \<times> error option" where "J = JSON (Holds (JObject ?kvs))"
  have built: "JSON (Holds (JObject ?kvs)) = (Some (the (fst J)), snd J)"
    unfolding J_def by (rule JSON_the) simp
  have made: "fst J \<noteq> None \<and> snd J = None"
    unfolding J_def by (simp add: JSON_def)
  have a: "map_of (rev ?kvs)
      (Replace (Name \<lparr>Name = ''flag-a'', Tag = \<lparr>Default = [], Env = []\<rparr>\<rparr>) (CHR ''-'') ''_'' (- 1))
      = Some JNull"
    by simp
  have b: "map_of (rev ?kvs)
      (Replace (Name \<lparr>Name = ''flag-b'', Tag = \<lparr>Default = [], Env = []\<rparr>\<rparr>) (CHR ''-'') ''_'' (- 1))
      = None"
    by simp
  show ?thesis
    using made JSON_null_as_absent [OF built a b, of "()" "()" "\<lparr>environ = Map.empty\<rparr>"]
    by (simp add: case_prod_beta J_def [symmetric])
qed

section \<open>The JSON resolver: construction\<close>




section \<open>Properties of the three resolvers\<close>

text \<open>
  Claim C6. For the defaults resolver, the environment resolver and every resolver that
  \<^verbatim>\<open>JSON\<close> returns, for every flag, context, parent path and state, the error result
  of \<^verbatim>\<open>Resolve\<close> is nil: a lookup never fails. When the source has no value for the
  flag, the value result is nil: that is the case of the defaults resolver when
  \<^verbatim>\<open>flag.Tag.Default\<close> is empty, of the environment resolver when \<^verbatim>\<open>flag.Tag.Env\<close> is
  empty or names a variable that is not set or is set to the empty string, and of a
  resolver built by \<^verbatim>\<open>JSON\<close> when the decoded document has no entry under the
  normalised name of the flag.
\<close>

theorem builtin_resolve_no_error:
  assumes "R = DefaultsResolver \<or> R = EnvarResolver \<or> (\<exists>r e. JSON r = (Some R, e))"
  shows "snd (fst (Resolve R context parent flag w)) = None \<and>
         (R = DefaultsResolver \<and> Default (Tag flag) = [] \<longrightarrow>
            fst (fst (Resolve R context parent flag w)) = INil) \<and>
         (R = EnvarResolver \<and>
            (Env (Tag flag) = [] \<or> environ w (Env (Tag flag)) = None \<or>
             environ w (Env (Tag flag)) = Some []) \<longrightarrow>
            fst (fst (Resolve R context parent flag w)) = INil) \<and>
         (\<forall>r e. JSON r = (Some R, e) \<and>
            fst (Decode r Map.empty) (Replace (Name flag) (CHR ''-'') ''_'' (- 1)) = None \<longrightarrow>
            fst (fst (Resolve R context parent flag w)) = INil)"
proof (intro conjI impI allI)
  show "snd (fst (Resolve R context parent flag w)) = None"
    using assms
    by (auto simp: DefaultsResolver_def EnvarResolver_def ResolverFunc_def JSON_f_def Let_def
        dest!: JSON_Some split: option.splits)
  show "fst (fst (Resolve R context parent flag w)) = INil"
    if "R = DefaultsResolver \<and> Default (Tag flag) = []"
    using that by (simp add: DefaultsResolver_def ResolverFunc_def)
  show "fst (fst (Resolve R context parent flag w)) = INil"
    if "R = EnvarResolver \<and>
      (Env (Tag flag) = [] \<or> environ w (Env (Tag flag)) = None \<or>
       environ w (Env (Tag flag)) = Some [])"
    using that by (auto simp: EnvarResolver_def ResolverFunc_def Getenv_def)
  show "fst (fst (Resolve R context parent flag w)) = INil"
    if "JSON r = (Some R, e) \<and>
      fst (Decode r Map.empty) (Replace (Name flag) (CHR ''-'') ''_'' (- 1)) = None"
    for r e
  proof -
    have "R = ResolverFunc (JSON_f (fst (Decode r Map.empty)))"
      using that JSON_Some by blast
    then show ?thesis
      using that by (simp add: ResolverFunc_def JSON_f_def)
  qed
qed

theorem builtin_resolve_no_error_witness:
  "fst (Resolve (DefaultsResolver :: resolver0) () ()
       \<lparr>Name = ''port'', Tag = \<lparr>Default = [], Env = ''PORT''\<rparr>\<rparr> \<lparr>environ = Map.empty\<rparr>)
     = (INil, None) \<and>
   fst (Resolve (EnvarResolver :: resolver0) () ()
       \<lparr>Name = ''port'', Tag = \<lparr>Default = [], Env = ''PORT''\<rparr>\<rparr> \<lparr>environ = Map.empty\<rparr>)
     = (INil, None) \<and>
   fst (Resolve (EnvarResolver :: resolver0) () ()
       \<lparr>Name = ''port'', Tag = \<lparr>Default = [], Env = ''PORT''\<rparr>\<rparr> \<lparr>environ = [''PORT'' \<mapsto> []]\<rparr>)
     = (INil, None) \<and>
   fst (Resolve (EnvarResolver :: resolver0) () ()
       \<lparr>Name = ''port'', Tag = \<lparr>Default = [], Env = []\<rparr>\<rparr> \<lparr>environ = [''PORT'' \<mapsto> ''9090'']\<rparr>)
     = (INil, None) \<and>
   (case JSON (Holds (JObject [(''name'', JString ''x'')])) of
      (res :: resolver0 option, err) \<Rightarrow>
        res \<noteq> None \<and>
        fst (Resolve (the res) () ()
          \<lparr>Name = ''port'', Tag = \<lparr>Default = [], Env = ''PORT''\<rparr>\<rparr> \<lparr>environ = Map.empty\<rparr>)
          = (INil, None) \<and>
        snd (fst (Resolve (the res) () ()
          \<lparr>Name = ''name'', Tag = \<lparr>Default = [], Env = ''PORT''\<rparr>\<rparr> \<lparr>environ = Map.empty\<rparr>))
          = None)"
proof -
  let ?doc = "Holds (JObject [(''name'', JString ''x'')])"
  let ?port = "\<lparr>Name = ''port'', Tag = \<lparr>Default = [], Env = ''PORT''\<rparr>\<rparr>"
  let ?name = "\<lparr>Name = ''name'', Tag = \<lparr>Default = [], Env = ''PORT''\<rparr>\<rparr>"
  let ?none = "\<lparr>Name = ''port'', Tag = \<lparr>Default = [], Env = []\<rparr>\<rparr>"
  define J :: "resolver0 option \<times> error option" where "J = JSON ?doc"
  have built: "JSON ?doc = (Some (the (fst J)), snd J)"
    unfolding J_def by (rule JSON_the) simp
  have made: "fst J \<noteq> None"
    unfolding J_def by (simp add: JSON_def)
  have json: "the (fst J) = DefaultsResolver \<or> the (fst J) = EnvarResolver \<or>
      (\<exists>r e. JSON r = (Some (the (fst J)), e))"
    using built by blast
  have absent: "JSON ?doc = (Some (the (fst J)), snd J) \<and>
      fst (Decode ?doc Map.empty) (Replace (Name ?port) (CHR ''-'') ''_'' (- 1)) = None"
    using built by simp
  note d = builtin_resolve_no_error [of "DefaultsResolver :: resolver0" "()" "()" ?port
      "\<lparr>environ = Map.empty\<rparr>"]
  note e1 = builtin_resolve_no_error [of "EnvarResolver :: resolver0" "()" "()" ?port
      "\<lparr>environ = Map.empty\<rparr>"]
  note e2 = builtin_resolve_no_error [of "EnvarResolver :: resolver0" "()" "()" ?port
      "\<lparr>environ = [''PORT'' \<mapsto> []]\<rparr>"]
  note e3 = builtin_resolve_no_error [of "EnvarResolver :: resolver0" "()" "()" ?none
      "\<lparr>environ = [''PORT'' \<mapsto> ''9090'']\<rparr>"]
  note j1 = builtin_resolve_no_error [OF json, of "()" "()" ?port "\<lparr>environ = Map.empty\<rparr>"]
  note j2 = builtin_resolve_no_error [OF json, of "()" "()" ?name "\<lparr>environ = Map.empty\<rparr>"]
  have j1': "fst (fst (Resolve (the (fst J)) () () ?port \<lparr>environ = Map.empty\<rparr>)) = INil"
    using j1 absent by blast
  show ?thesis
    using made d e1 e2 e3 j1 j1' j2
    by (simp add: case_prod_beta J_def [symmetric] prod_eq_iff)
qed

text \<open>
  Claim C7. For each of the three resolvers and all arguments, \<^verbatim>\<open>Resolve\<close> returns
  the state of the process as it got it, and a second call with the same arguments, made
  in the state that the first call leaves, returns what the first call returned. The map
  that the closure of \<^verbatim>\<open>JSON\<close> captures is only read: the resolver is the same value
  in both calls.
\<close>

theorem builtin_resolve_twice:
  assumes "R = DefaultsResolver \<or> R = EnvarResolver \<or> (\<exists>r e. JSON r = (Some R, e))"
  shows "snd (Resolve R context parent flag w) = w \<and>
         Resolve R context parent flag (snd (Resolve R context parent flag w)) =
           Resolve R context parent flag w"
proof -
  have "snd (Resolve R context parent flag w) = w"
    using assms
    by (auto simp: DefaultsResolver_def EnvarResolver_def ResolverFunc_def JSON_f_def Let_def
        dest!: JSON_Some split: option.splits)
  then show ?thesis by simp
qed

theorem builtin_resolve_twice_witness:
  "snd (Resolve (DefaultsResolver :: resolver0) () ()
       \<lparr>Name = ''port'', Tag = \<lparr>Default = ''8080'', Env = ''PORT''\<rparr>\<rparr>
       \<lparr>environ = [''PORT'' \<mapsto> ''9090'']\<rparr>) = \<lparr>environ = [''PORT'' \<mapsto> ''9090'']\<rparr> \<and>
   Resolve (DefaultsResolver :: resolver0) () ()
       \<lparr>Name = ''port'', Tag = \<lparr>Default = ''8080'', Env = ''PORT''\<rparr>\<rparr>
       (snd (Resolve (DefaultsResolver :: resolver0) () ()
          \<lparr>Name = ''port'', Tag = \<lparr>Default = ''8080'', Env = ''PORT''\<rparr>\<rparr>
          \<lparr>environ = [''PORT'' \<mapsto> ''9090'']\<rparr>))
     = Resolve (DefaultsResolver :: resolver0) () ()
       \<lparr>Name = ''port'', Tag = \<lparr>Default = ''8080'', Env = ''PORT''\<rparr>\<rparr>
       \<lparr>environ = [''PORT'' \<mapsto> ''9090'']\<rparr> \<and>
   snd (Resolve (EnvarResolver :: resolver0) () ()
       \<lparr>Name = ''port'', Tag = \<lparr>Default = ''8080'', Env = ''PORT''\<rparr>\<rparr>
       \<lparr>environ = [''PORT'' \<mapsto> ''9090'']\<rparr>) = \<lparr>environ = [''PORT'' \<mapsto> ''9090'']\<rparr> \<and>
   Resolve (EnvarResolver :: resolver0) () ()
       \<lparr>Name = ''port'', Tag = \<lparr>Default = ''8080'', Env = ''PORT''\<rparr>\<rparr>
       (snd (Resolve (EnvarResolver :: resolver0) () ()
          \<lparr>Name = ''port'', Tag = \<lparr>Default = ''8080'', Env = ''PORT''\<rparr>\<rparr>
          \<lparr>environ = [''PORT'' \<mapsto> ''9090'']\<rparr>))
     = Resolve (EnvarResolver :: resolver0) () ()
       \<lparr>Name = ''port'', Tag = \<lparr>Default = ''8080'', Env = ''PORT''\<rparr>\<rparr>
       \<lparr>environ = [''PORT'' \<mapsto> ''9090'']\<rparr> \<and>
   (case JSON (Holds (JObject [(''port'', JNumber 8081)])) of
      (res :: resolver0 option, err) \<Rightarrow>
        res \<noteq> None \<and>
        snd (Resolve (the res) () ()
          \<lparr>Name = ''port'', Tag = \<lparr>Default = ''8080'', Env = ''PORT''\<rparr>\<rparr>
          \<lparr>environ = [''PORT'' \<mapsto> ''9090'']\<rparr>) = \<lparr>environ = [''PORT'' \<mapsto> ''9090'']\<rparr> \<and>
        Resolve (the res) () ()
          \<lparr>Name = ''port'', Tag = \<lparr>Default = ''8080'', Env = ''PORT''\<rparr>\<rparr>
          (snd (Resolve (the res) () ()
             \<lparr>Name = ''port'', Tag = \<lparr>Default = ''8080'', Env = ''PORT''\<rparr>\<rparr>
             \<lparr>environ = [''PORT'' \<mapsto> ''9090'']\<rparr>))
        = Resolve (the res) () ()
          \<lparr>Name = ''port'', Tag = \<lparr>Default = ''8080'', Env = ''PORT''\<rparr>\<rparr>
          \<lparr>environ = [''PORT'' \<mapsto> ''9090'']\<rparr>)"
proof -
  let ?flag = "\<lparr>Name = ''port'', Tag = \<lparr>Default = ''8080'', Env = ''PORT''\<rparr>\<rparr>"
  let ?w = "\<lparr>environ = [''PORT'' \<mapsto> ''9090'']\<rparr>"
  define J :: "resolver0 option \<times> error option"
    where "J = JSON (Holds (JObject [(''port'', JNumber 8081)]))"
  have built: "JSON (Holds (JObject [(''port'', JNumber 8081)])) = (Some (the (fst J)), snd J)"
    unfolding J_def by (rule JSON_the) simp
  have made: "fst J \<noteq> None"
    unfolding J_def by (simp add: JSON_def)
  have json: "the (fst J) = DefaultsResolver \<or> the (fst J) = EnvarResolver \<or>
      (\<exists>r e. JSON r = (Some (the (fst J)), e))"
    using built by blast
  show ?thesis
    using made
      builtin_resolve_twice [of "DefaultsResolver :: resolver0" "()" "()" ?flag ?w]
      builtin_resolve_twice [of "EnvarResolver :: resolver0" "()" "()" ?flag ?w]
      builtin_resolve_twice [OF json, of "()" "()" ?flag ?w]
    by (simp add: case_prod_beta J_def [symmetric])
qed

text \<open>
  Claim C8. For every function \<open>r\<close>, \<^verbatim>\<open>ResolverFunc(r)\<close> has the two methods of a
  \<^verbatim>\<open>Resolver\<close>: \<^verbatim>\<open>Validate\<close> returns the nil error for every application, and
  \<^verbatim>\<open>Resolve\<close> returns exactly what \<open>r\<close> returns on the same arguments, value, error
  and effect on the state.
\<close>

theorem ResolverFunc_methods:
  "Validate (ResolverFunc r) app w = (None, w) \<and>
   Resolve (ResolverFunc r) context parent flag w = r context parent flag w"
  by (simp add: ResolverFunc_def)

theorem ResolverFunc_methods_witness:
  "Validate (ResolverFunc (\<lambda>context parent flag w.
        ((IString (Name flag), Some (ReadError ''refused'')), w\<lparr>environ := Map.empty\<rparr>)) :: resolver0)
     () \<lparr>environ = [''PORT'' \<mapsto> ''9090'']\<rparr>
     = (None, \<lparr>environ = [''PORT'' \<mapsto> ''9090'']\<rparr>) \<and>
   Resolve (ResolverFunc (\<lambda>context parent flag w.
        ((IString (Name flag), Some (ReadError ''refused'')), w\<lparr>environ := Map.empty\<rparr>)) :: resolver0)
     () () \<lparr>Name = ''port'', Tag = \<lparr>Default = ''8080'', Env = ''PORT''\<rparr>\<rparr>
     \<lparr>environ = [''PORT'' \<mapsto> ''9090'']\<rparr>
     = ((IString ''port'', Some (ReadError ''refused'')), \<lparr>environ = Map.empty\<rparr>)"
  using ResolverFunc_methods
    [of "\<lambda>context parent flag w.
        ((IString (Name flag), Some (ReadError ''refused'')), w\<lparr>environ := Map.empty\<rparr>)"
        "()" "\<lparr>environ = [''PORT'' \<mapsto> ''9090'']\<rparr>" "()" "()"
        "\<lparr>Name = ''port'', Tag = \<lparr>Default = ''8080'', Env = ''PORT''\<rparr>\<rparr>"]
  by simp

text \<open>
  Claim C9. The key that a resolver built by \<^verbatim>\<open>JSON\<close> looks up has no hyphen, and the
  members of the document whose key has a hyphen are never returned: the resolver built
  from the document without these members gives the same result for every flag. The flag
  \<^verbatim>\<open>max-retries\<close> gets the value of the key \<^verbatim>\<open>max_retries\<close>, not that of the key
  \<^verbatim>\<open>max-retries\<close>.
\<close>

theorem JSON_hyphen_key_unreachable:
  assumes "JSON (Holds (JObject kvs)) = (Some res, e)"
    and "JSON (Holds (JObject (filter (\<lambda>kv. CHR ''-'' \<notin> set (fst kv)) kvs))) = (Some res', e')"
  shows "CHR ''-'' \<notin> set (Replace (Name flag) (CHR ''-'') ''_'' (- 1)) \<and>
         Resolve res context parent flag w = Resolve res' context parent flag w"
proof -
  let ?key = "Replace (Name flag) (CHR ''-'') ''_'' (- 1)"
  have key: "CHR ''-'' \<notin> set ?key"
    by (rule Replace_no_hyphen)
  have res: "res = ResolverFunc (JSON_f (\<lambda>k. map_option valueInterface (map_of (rev kvs) k)))"
    using assms(1) by (rule JSON_object_Some)
  have res': "res' = ResolverFunc (JSON_f (\<lambda>k. map_option valueInterface
      (map_of (rev (filter (\<lambda>kv. CHR ''-'' \<notin> set (fst kv)) kvs)) k)))"
    using assms(2) by (rule JSON_object_Some)
  have "map_of (rev (filter (\<lambda>kv. CHR ''-'' \<notin> set (fst kv)) kvs)) ?key = map_of (rev kvs) ?key"
    using key map_of_filter_key [where Q = "\<lambda>k. CHR ''-'' \<notin> set k" and xs = "rev kvs" and k = ?key]
    by (simp add: rev_filter)
  then show ?thesis
    using key by (simp add: res res' ResolverFunc_def JSON_f_def)
qed

theorem JSON_hyphen_key_unreachable_witness:
  "(case (JSON (Holds (JObject [(''max-retries'', JNumber 5), (''max_retries'', JNumber 3)])),
          JSON (Holds (JObject [(''max_retries'', JNumber 3)]))) of
      ((res :: resolver0 option, err), (res' :: resolver0 option, err')) \<Rightarrow>
        res \<noteq> None \<and> res' \<noteq> None \<and>
        CHR ''-'' \<notin> set (Replace ''max-retries'' (CHR ''-'') ''_'' (- 1)) \<and>
        Resolve (the res) () () \<lparr>Name = ''max-retries'', Tag = \<lparr>Default = [], Env = []\<rparr>\<rparr>
            \<lparr>environ = Map.empty\<rparr>
          = Resolve (the res') () () \<lparr>Name = ''max-retries'', Tag = \<lparr>Default = [], Env = []\<rparr>\<rparr>
            \<lparr>environ = Map.empty\<rparr> \<and>
        Resolve (the res') () () \<lparr>Name = ''max-retries'', Tag = \<lparr>Default = [], Env = []\<rparr>\<rparr>
            \<lparr>environ = Map.empty\<rparr>
          = ((IFloat64 3, None), \<lparr>environ = Map.empty\<rparr>))"
proof -
  let ?kvs = "[(''max-retries'', JNumber 5), (''max_retries'', JNumber 3)]"
  define J :: "resolver0 option \<times> error option" where "J = JSON (Holds (JObject ?kvs))"
  define J' :: "resolver0 option \<times> error option"
    where "J' = JSON (Holds (JObject [(''max_retries'', JNumber 3)]))"
  have built: "JSON (Holds (JObject ?kvs)) = (Some (the (fst J)), snd J)"
    unfolding J_def by (rule JSON_the) simp
  have built': "JSON (Holds (JObject (filter (\<lambda>kv. CHR ''-'' \<notin> set (fst kv)) ?kvs)))
      = (Some (the (fst J')), snd J')"
    unfolding J'_def by (simp add: JSON_def)
  have made: "fst J \<noteq> None \<and> fst J' \<noteq> None"
    unfolding J_def J'_def by (simp add: JSON_def)
  have value': "Resolve (the (fst J')) () () \<lparr>Name = ''max-retries'', Tag = \<lparr>Default = [], Env = []\<rparr>\<rparr>
            \<lparr>environ = Map.empty\<rparr> = ((IFloat64 3, None), \<lparr>environ = Map.empty\<rparr>)"
    unfolding J'_def by (simp add: JSON_def ResolverFunc_def JSON_f_def)
  show ?thesis
    using made value'
      JSON_hyphen_key_unreachable [OF built built', of
        "\<lparr>Name = ''max-retries'', Tag = \<lparr>Default = [], Env = []\<rparr>\<rparr>" "()" "()"
        "\<lparr>environ = Map.empty\<rparr>"]
    by (simp add: case_prod_beta J_def [symmetric] J'_def [symmetric])
qed

text \<open>
  Claim C10. The value and error that \<^verbatim>\<open>Resolve\<close> returns depend on a part of the
  inputs only: for the defaults resolver on \<^verbatim>\<open>flag.Tag.Default\<close>; for the environment
  resolver on \<^verbatim>\<open>flag.Tag.Env\<close> and the environment; for a resolver built by \<^verbatim>\<open>JSON\<close>
  on \<^verbatim>\<open>flag.Name\<close> and the decoded document. Two calls that agree on these give equal
  results, whatever the contexts, the parent paths, the other fields of the flags and the
  rest of the state are.
\<close>

theorem builtin_resolve_depends_on:
  assumes "(R1 = DefaultsResolver \<and> R2 = DefaultsResolver \<and>
              Default (Tag f1) = Default (Tag f2)) \<or>
           (R1 = EnvarResolver \<and> R2 = EnvarResolver \<and>
              Env (Tag f1) = Env (Tag f2) \<and> environ w1 = environ w2) \<or>
           (\<exists>r1 r2 e1 e2. JSON r1 = (Some R1, e1) \<and> JSON r2 = (Some R2, e2) \<and>
              fst (Decode r1 Map.empty) = fst (Decode r2 Map.empty) \<and> Name f1 = Name f2)"
  shows "fst (Resolve R1 c1 p1 f1 w1) = fst (Resolve R2 c2 p2 f2 w2)"
  using assms
proof (elim disjE conjE exE)
  assume "R1 = DefaultsResolver" "R2 = DefaultsResolver" "Default (Tag f1) = Default (Tag f2)"
  then show ?thesis
    by (simp add: DefaultsResolver_def ResolverFunc_def)
next
  assume "R1 = EnvarResolver" "R2 = EnvarResolver" "Env (Tag f1) = Env (Tag f2)"
    "environ w1 = environ w2"
  then show ?thesis
    by (simp add: EnvarResolver_def ResolverFunc_def Getenv_def Let_def)
next
  fix r1 r2 e1 e2
  assume built: "JSON r1 = (Some R1, e1)" "JSON r2 = (Some R2, e2)"
    and same: "fst (Decode r1 Map.empty) = fst (Decode r2 Map.empty)" "Name f1 = Name f2"
  have "R1 = ResolverFunc (JSON_f (fst (Decode r1 Map.empty)))"
    and "R2 = ResolverFunc (JSON_f (fst (Decode r2 Map.empty)))"
    using built JSON_Some by blast+
  then show ?thesis
    using same by (simp add: ResolverFunc_def JSON_f_def split: option.splits)
qed

theorem builtin_resolve_depends_on_witness:
  "fst (Resolve (DefaultsResolver :: resolver1) 1 ''serve''
         \<lparr>Name = ''port'', Tag = \<lparr>Default = ''8080'', Env = ''PORT'', \<dots> = True\<rparr>, \<dots> = ''p''\<rparr>
         \<lparr>environ = [''PORT'' \<mapsto> ''9090''], \<dots> = 0\<rparr>)
     = fst (Resolve (DefaultsResolver :: resolver1) 2 ''run''
         \<lparr>Name = ''listen'', Tag = \<lparr>Default = ''8080'', Env = ''LISTEN'', \<dots> = False\<rparr>, \<dots> = ''l''\<rparr>
         \<lparr>environ = Map.empty, \<dots> = 7\<rparr>) \<and>
   fst (Resolve (EnvarResolver :: resolver1) 1 ''serve''
         \<lparr>Name = ''port'', Tag = \<lparr>Default = ''8080'', Env = ''PORT'', \<dots> = True\<rparr>, \<dots> = ''p''\<rparr>
         \<lparr>environ = [''PORT'' \<mapsto> ''9090''], \<dots> = 0\<rparr>)
     = fst (Resolve (EnvarResolver :: resolver1) 2 ''run''
         \<lparr>Name = ''listen'', Tag = \<lparr>Default = [], Env = ''PORT'', \<dots> = False\<rparr>, \<dots> = ''l''\<rparr>
         \<lparr>environ = [''PORT'' \<mapsto> ''9090''], \<dots> = 7\<rparr>) \<and>
   (case (JSON (Holds (JObject [(''port'', JNumber 1), (''port'', JNumber 8081)])),
          JSON (Holds (JObject [(''port'', JNumber 8081)]))) of
      ((res1 :: resolver1 option, err1), (res2 :: resolver1 option, err2)) \<Rightarrow>
        res1 \<noteq> None \<and> res2 \<noteq> None \<and>
        fst (Resolve (the res1) 1 ''serve''
          \<lparr>Name = ''port'', Tag = \<lparr>Default = ''8080'', Env = ''PORT'', \<dots> = True\<rparr>, \<dots> = ''p''\<rparr>
          \<lparr>environ = [''PORT'' \<mapsto> ''9090''], \<dots> = 0\<rparr>)
        = fst (Resolve (the res2) 2 ''run''
          \<lparr>Name = ''port'', Tag = \<lparr>Default = [], Env = [], \<dots> = False\<rparr>, \<dots> = ''l''\<rparr>
          \<lparr>environ = Map.empty, \<dots> = 7\<rparr>))"
proof -
  let ?f1 = "\<lparr>Name = ''port'', Tag = \<lparr>Default = ''8080'', Env = ''PORT'', \<dots> = True\<rparr>, \<dots> = ''p''\<rparr>"
  let ?w1 = "\<lparr>environ = [''PORT'' \<mapsto> ''9090''], \<dots> = 0 :: nat\<rparr>"
  let ?fd = "\<lparr>Name = ''listen'', Tag = \<lparr>Default = ''8080'', Env = ''LISTEN'', \<dots> = False\<rparr>, \<dots> = ''l''\<rparr>"
  let ?fe = "\<lparr>Name = ''listen'', Tag = \<lparr>Default = [], Env = ''PORT'', \<dots> = False\<rparr>, \<dots> = ''l''\<rparr>"
  let ?fj = "\<lparr>Name = ''port'', Tag = \<lparr>Default = [], Env = [], \<dots> = False\<rparr>, \<dots> = ''l''\<rparr>"
  let ?w0 = "\<lparr>environ = Map.empty, \<dots> = 7 :: nat\<rparr>"
  let ?w2 = "\<lparr>environ = [''PORT'' \<mapsto> ''9090''], \<dots> = 7 :: nat\<rparr>"
  let ?d1 = "Holds (JObject [(''port'', JNumber 1), (''port'', JNumber 8081)])"
  let ?d2 = "Holds (JObject [(''port'', JNumber 8081)])"
  define J1 :: "resolver1 option \<times> error option" where "J1 = JSON ?d1"
  define J2 :: "resolver1 option \<times> error option" where "J2 = JSON ?d2"
  have built: "JSON ?d1 = (Some (the (fst J1)), snd J1)" "JSON ?d2 = (Some (the (fst J2)), snd J2)"
    unfolding J1_def J2_def by (rule JSON_the, simp)+
  have made: "fst J1 \<noteq> None \<and> fst J2 \<noteq> None"
    unfolding J1_def J2_def by (simp add: JSON_def)
  have same: "fst (Decode ?d1 Map.empty) = fst (Decode ?d2 Map.empty)"
    by simp
  have json: "\<exists>r1 r2 e1 e2. JSON r1 = (Some (the (fst J1)), e1) \<and> JSON r2 = (Some (the (fst J2)), e2) \<and>
      fst (Decode r1 Map.empty) = fst (Decode r2 Map.empty) \<and> Name ?f1 = Name ?fj"
    using built same by (intro exI [of _ ?d1] exI [of _ ?d2] exI [of _ "snd J1"] exI [of _ "snd J2"]) simp
  show ?thesis
    using made
      builtin_resolve_depends_on [of "DefaultsResolver :: resolver1" "DefaultsResolver :: resolver1"
        ?f1 ?fd ?w1 ?w0 1 "''serve''" 2 "''run''"]
      builtin_resolve_depends_on [of "EnvarResolver :: resolver1" "EnvarResolver :: resolver1"
        ?f1 ?fe ?w1 ?w2 1 "''serve''" 2 "''run''"]
      builtin_resolve_depends_on [of "the (fst J1)" "the (fst J2)"
        ?f1 ?fj ?w1 ?w0 1 "''serve''" 2 "''run''", OF disjI2, OF disjI2, OF json]
    by (simp add: case_prod_beta J1_def [symmetric] J2_def [symmetric])
qed

end
